theory Spec2Isabelle
  imports
    Main
    "HOL-Library.Char_ord"
    "HOL-Library.List_Lexorder"
    "HOL-Library.Sublist"
    "HOL-Library.Multiset"
begin

section \<open>Kilo HTTP Media Server: a shallow embedding of \<^verbatim>\<open>main.py\<close>\<close>

text \<open>
  The server is a handful of request handlers over the \<^verbatim>\<open>pathlib\<close> API. The embedding
  has three layers:
  \<^item> Python strings and \<^verbatim>\<open>PurePosixPath\<close> values, as executable HOL functions;
  \<^item> the operating system, as a record of the system calls the handlers reach through
    \<^verbatim>\<open>pathlib\<close> (\<^verbatim>\<open>stat\<close>, \<^verbatim>\<open>listdir\<close>, \<^verbatim>\<open>realpath\<close>) and of the random source;
  \<^item> the handlers themselves, each returning either the raised exception or the response.

  File names are Isabelle strings, that is byte sequences. Python compares and sorts
  \<^verbatim>\<open>str\<close> by code point, which on UTF-8 encoded names is the byte order used here.
  \<^verbatim>\<open>str.lower\<close> is modelled on the ASCII letters; other bytes are left alone.
  Paths follow the POSIX flavour of \<^verbatim>\<open>pathlib\<close>.
\<close>

subsection \<open>Exceptions\<close>

text \<open>
  Every built-in exception carries the text that \<^verbatim>\<open>str(e)\<close> yields, because the
  handlers copy it into the detail of a 500 response. \<open>HTTPException\<close> carries its status
  code and its detail.
\<close>

datatype exn =
    HTTPException nat string
  | PermissionError string
  | OSError string
  | ValueError string
  | IndexError string

text \<open>Sequencing of two computations that may raise.\<close>

definition bind :: "exn + 'a \<Rightarrow> ('a \<Rightarrow> exn + 'b) \<Rightarrow> exn + 'b" where
  "bind m f = (case m of Inl e \<Rightarrow> Inl e | Inr x \<Rightarrow> f x)"

text \<open>
  A \<^verbatim>\<open>for\<close> loop whose body may raise. The loop state at the moment of the exception is
  kept, since an enclosing \<^verbatim>\<open>except\<close> clause that swallows the exception goes on with
  the variables as the aborted loop left them.
\<close>

fun for_each :: "('s \<Rightarrow> 'a \<Rightarrow> exn + 's) \<Rightarrow> 'a list \<Rightarrow> 's \<Rightarrow> 's \<times> exn option" where
  "for_each body [] s = (s, None)"
| "for_each body (x # xs) s =
     (case body s x of Inl e \<Rightarrow> (s, Some e) | Inr s' \<Rightarrow> for_each body xs s')"

definition finish :: "'s \<times> exn option \<Rightarrow> exn + 's" where
  "finish r = (case r of (s, None) \<Rightarrow> Inr s | (s, Some e) \<Rightarrow> Inl e)"

subsection \<open>Python strings\<close>

text \<open>\<^verbatim>\<open>str.lower\<close>: the ASCII capitals go to their small letters.\<close>

definition lower_char :: "char \<Rightarrow> char" where
  "lower_char c =
     (case map_of (zip ''ABCDEFGHIJKLMNOPQRSTUVWXYZ'' ''abcdefghijklmnopqrstuvwxyz'') c of
        Some l \<Rightarrow> l
      | None \<Rightarrow> c)"

definition lower :: "string \<Rightarrow> string" where
  "lower s = map lower_char s"

text \<open>\<^verbatim>\<open>s.split(sep)\<close> for a one-character separator: the fields between the separators.\<close>

fun split :: "char \<Rightarrow> string \<Rightarrow> string list" where
  "split sep [] = [[]]"
| "split sep (c # cs) =
     (if c = sep then [] # split sep cs
      else (case split sep cs of [] \<Rightarrow> [[c]] | w # ws \<Rightarrow> (c # w) # ws))"

text \<open>\<^verbatim>\<open>xs[-1]\<close>: the last element, \<^verbatim>\<open>IndexError\<close> on the empty list.\<close>

definition index_last :: "'a list \<Rightarrow> exn + 'a" where
  "index_last xs =
     (if xs = [] then Inl (IndexError ''list index out of range'') else Inr (last xs))"

text \<open>\<^verbatim>\<open>sep.join(xs)\<close> for a one-character separator.\<close>

fun join :: "char \<Rightarrow> string list \<Rightarrow> string" where
  "join sep [] = []"
| "join sep [x] = x"
| "join sep (x # y # ys) = x @ sep # join sep (y # ys)"

subsection \<open>Media classification\<close>

definition IMG_EXTS :: "string set" where
  "IMG_EXTS = {''jpg'', ''jpeg'', ''png'', ''gif'', ''webp''}"

definition VID_EXTS :: "string set" where
  "VID_EXTS = {''mp4'', ''mov'', ''avi'', ''mkv'', ''webm''}"

definition is_media_file :: "string \<Rightarrow> string option \<Rightarrow> exn + bool" where
  "is_media_file filename media_type =
     bind (index_last (split (CHR ''.'') (lower filename))) (\<lambda>ext.
       if media_type = Some ''images'' then Inr (ext \<in> IMG_EXTS)
       else if media_type = Some ''videos'' then Inr (ext \<in> VID_EXTS)
       else Inr (ext \<in> IMG_EXTS \<or> ext \<in> VID_EXTS))"

definition get_media_type :: "string \<Rightarrow> exn + string option" where
  "get_media_type filename =
     bind (index_last (split (CHR ''.'') (lower filename))) (\<lambda>ext.
       if ext \<in> IMG_EXTS then Inr (Some ''images'')
       else if ext \<in> VID_EXTS then Inr (Some ''videos'')
       else Inr None)"


subsection \<open>Pure paths (\<^verbatim>\<open>pathlib.PurePosixPath\<close>)\<close>

text \<open>
  A path is its root (\<^verbatim>\<open>''\<close>, \<^verbatim>\<open>'/'\<close> or \<^verbatim>\<open>'//'\<close>) and its components. Parsing drops
  empty components and \<^verbatim>\<open>'.'\<close>, keeps \<^verbatim>\<open>'..'\<close>, and reads exactly two leading slashes
  as the root \<^verbatim>\<open>'//'\<close>.
\<close>

datatype root_kind = NoRoot | Slash | DoubleSlash

record path =
  root :: root_kind
  parts :: "string list"

definition splitroot :: "string \<Rightarrow> root_kind \<times> string" where
  "splitroot part =
     (if part \<noteq> [] \<and> hd part = CHR ''/'' then
        (let stripped_part = dropWhile (\<lambda>c. c = CHR ''/'') part in
         if length part - length stripped_part = 2 then (DoubleSlash, stripped_part)
         else (Slash, stripped_part))
      else (NoRoot, part))"

definition Path :: "string \<Rightarrow> path" where
  "Path s =
     (case splitroot s of (r, rel) \<Rightarrow>
        \<lparr>root = r, parts = filter (\<lambda>x. x \<noteq> [] \<and> x \<noteq> ''.'') (split (CHR ''/'') rel)\<rparr>)"

text \<open>The operator \<^verbatim>\<open>self / key\<close>: a rooted right operand replaces the left one.\<close>

definition truediv :: "path \<Rightarrow> string \<Rightarrow> path" where
  "truediv self key =
     (let other = Path key in
      if root other \<noteq> NoRoot then other
      else \<lparr>root = root self, parts = parts self @ parts other\<rparr>)"

definition str_path :: "path \<Rightarrow> string" where
  "str_path p =
     (case root p of
        NoRoot \<Rightarrow> (if parts p = [] then ''.'' else join (CHR ''/'') (parts p))
      | Slash \<Rightarrow> ''/'' @ join (CHR ''/'') (parts p)
      | DoubleSlash \<Rightarrow> ''//'' @ join (CHR ''/'') (parts p))"

definition name_of :: "path \<Rightarrow> string" where
  "name_of p = (if parts p = [] then [] else last (parts p))"

text \<open>
  \<^verbatim>\<open>self.relative_to(other)\<close> compares roots and components only; nothing is resolved,
  so a \<^verbatim>\<open>'..'\<close> component is a component like any other.
\<close>

definition relative_to :: "path \<Rightarrow> path \<Rightarrow> exn + path" where
  "relative_to self other =
     (if root self = root other \<and> prefix (parts other) (parts self)
      then Inr \<lparr>root = NoRoot, parts = drop (length (parts other)) (parts self)\<rparr>
      else Inl (ValueError ''path is not in the subpath of the other path''))"

text \<open>The entry of a directory listing: \<^verbatim>\<open>self._make_child_relpath(name)\<close>.\<close>

definition make_child_relpath :: "path \<Rightarrow> string \<Rightarrow> path" where
  "make_child_relpath self part = \<lparr>root = root self, parts = parts self @ [part]\<rparr>"

text \<open>
  Paths are ordered by their component lists, the root in front; \<^verbatim>\<open>sorted\<close> is a stable
  sort on that key.
\<close>

definition cparts :: "path \<Rightarrow> string list" where
  "cparts p =
     (case root p of
        NoRoot \<Rightarrow> parts p
      | Slash \<Rightarrow> ''/'' # parts p
      | DoubleSlash \<Rightarrow> ''//'' # parts p)"

definition sorted_paths :: "path list \<Rightarrow> path list" where
  "sorted_paths ps = sort_key cparts ps"

subsection \<open>Responses\<close>

record dir_entry =
  d_name :: string
  d_path :: string
  d_image_count :: nat
  d_video_count :: nat

record directory_listing =
  dl_path :: string
  dl_directories :: "dir_entry list"
  dl_image_count :: nat
  dl_video_count :: nat

record media_entry =
  m_name :: string
  m_path :: string

record media_listing =
  ml_path :: string
  ml_images :: "media_entry list"
  ml_videos :: "media_entry list"

record file_response =
  fr_path :: path
  fr_media_type :: string

text \<open>
  The slideshow handler returns one of three documents: the \<^verbatim>\<open>Directory not found\<close>
  block, the \<^verbatim>\<open>Error: ...\<close> block built from a caught exception, or the viewer page, whose
  only variable parts are the media type and the embedded list of media files.
\<close>

datatype html =
    Directory_not_found
  | Error_block exn
  | Slideshow_document string "media_entry list"

record html_response =
  hr_status_code :: nat
  hr_content :: html

subsection \<open>The operating system\<close>

text \<open>
  What the handlers see of the machine. \<open>stat\<close> follows \<^verbatim>\<open>Path.stat\<close> as used by
  \<^verbatim>\<open>exists\<close>, \<^verbatim>\<open>is_dir\<close> and \<^verbatim>\<open>is_file\<close>: \<open>Inr None\<close> stands for the errors those methods
  turn into \<^verbatim>\<open>False\<close> (no such entry), \<open>Inl e\<close> for the errors they let through.
  \<open>listdir\<close> gives the names in the order the system yields them. \<open>realpath\<close> is
  \<^verbatim>\<open>os.path.realpath\<close> followed by the loop check of \<^verbatim>\<open>Path.resolve\<close>. \<open>shuffle\<close> is
  the permutation \<^verbatim>\<open>random.shuffle\<close> draws.
\<close>

datatype kind = Regular | Directory | Other

record os =
  stat :: "string \<Rightarrow> exn + kind option"
  listdir :: "string \<Rightarrow> exn + string list"
  realpath :: "string \<Rightarrow> exn + string"
  shuffle :: "media_entry list \<Rightarrow> media_entry list"

definition exists :: "os \<Rightarrow> path \<Rightarrow> exn + bool" where
  "exists os p = bind (stat os (str_path p)) (\<lambda>k. Inr (k \<noteq> None))"

definition is_dir :: "os \<Rightarrow> path \<Rightarrow> exn + bool" where
  "is_dir os p = bind (stat os (str_path p)) (\<lambda>k. Inr (k = Some Directory))"

definition is_file :: "os \<Rightarrow> path \<Rightarrow> exn + bool" where
  "is_file os p = bind (stat os (str_path p)) (\<lambda>k. Inr (k = Some Regular))"

definition iterdir :: "os \<Rightarrow> path \<Rightarrow> exn + path list" where
  "iterdir os p = bind (listdir os (str_path p)) (\<lambda>names. Inr (map (make_child_relpath p) names))"

definition resolve :: "os \<Rightarrow> path \<Rightarrow> exn + path" where
  "resolve os p = bind (realpath os (str_path p)) (\<lambda>s. Inr (Path s))"

subsection \<open>Configuration and helpers\<close>

text \<open>The global \<^verbatim>\<open>MEDIA_ROOT\<close> is \<^verbatim>\<open>None\<close> until the command line has been read.\<close>

definition get_media_root :: "string option \<Rightarrow> exn + path" where
  "get_media_root MEDIA_ROOT =
     (case MEDIA_ROOT of
        None \<Rightarrow> Inl (HTTPException 500 ''Media root not configured. Set MEDIA_ROOT environment variable or use --media-root CLI argument.'')
      | Some r \<Rightarrow> Inr (Path r))"

definition relative_to_media_root :: "string option \<Rightarrow> path \<Rightarrow> exn + string" where
  "relative_to_media_root MEDIA_ROOT p =
     bind (get_media_root MEDIA_ROOT) (\<lambda>media_root.
       case relative_to p media_root of
         Inr rel \<Rightarrow> Inr (str_path rel)
       | Inl (ValueError m) \<Rightarrow> Inr (str_path p)
       | Inl e \<Rightarrow> Inl e)"

text \<open>
  The two \<^verbatim>\<open>except\<close> clauses that close every JSON and file handler: an
  \<open>HTTPException\<close> passes, anything else becomes a 500 with \<^verbatim>\<open>str(e)\<close> as detail.
\<close>

fun reraise :: "exn \<Rightarrow> exn" where
  "reraise (HTTPException code detail) = HTTPException code detail"
| "reraise (PermissionError m) = HTTPException 500 m"
| "reraise (OSError m) = HTTPException 500 m"
| "reraise (ValueError m) = HTTPException 500 m"
| "reraise (IndexError m) = HTTPException 500 m"

definition http_errors :: "exn + 'a \<Rightarrow> exn + 'a" where
  "http_errors r = (case r of Inl e \<Rightarrow> Inl (reraise e) | Inr v \<Rightarrow> Inr v)"

text \<open>\<^verbatim>\<open>media_root / path if path else media_root\<close>, and \<^verbatim>\<open>path or ""\<close>.\<close>

definition target_of :: "path \<Rightarrow> string option \<Rightarrow> path" where
  "target_of media_root path_arg =
     (case path_arg of
        None \<Rightarrow> media_root
      | Some p \<Rightarrow> if p \<noteq> [] then truediv media_root p else media_root)"

definition or_empty :: "string option \<Rightarrow> string" where
  "or_empty path_arg = (case path_arg of None \<Rightarrow> [] | Some p \<Rightarrow> p)"


subsection \<open>\<^verbatim>\<open>GET /api/directories\<close>\<close>

text \<open>The body of the inner loop: one child of a subdirectory.\<close>

definition count_step :: "os \<Rightarrow> nat \<times> nat \<Rightarrow> path \<Rightarrow> exn + nat \<times> nat" where
  "count_step os c sub_item =
     (case c of (img_count, vid_count) \<Rightarrow>
        bind (is_file os sub_item) (\<lambda>f.
          if \<not> f then Inr c
          else bind (is_media_file (name_of sub_item) None) (\<lambda>m.
            if \<not> m then Inr c
            else bind (get_media_type (name_of sub_item)) (\<lambda>t.
              if t = Some ''images'' then Inr (img_count + 1, vid_count)
              else Inr (img_count, vid_count + 1)))))"

text \<open>
  The \<^verbatim>\<open>try\<close> block around the inner loop. A \<^verbatim>\<open>PermissionError\<close> is swallowed and
  the counters keep the value they had; any other exception goes on to the handler.
\<close>

definition count_subdirectory :: "os \<Rightarrow> path \<Rightarrow> exn + nat \<times> nat" where
  "count_subdirectory os item =
     (case iterdir os item of
        Inl (PermissionError m) \<Rightarrow> Inr (0, 0)
      | Inl e \<Rightarrow> Inl e
      | Inr sub_items \<Rightarrow>
          (case for_each (count_step os) sub_items (0, 0) of
             (c, None) \<Rightarrow> Inr c
           | (c, Some (PermissionError m)) \<Rightarrow> Inr c
           | (c, Some e) \<Rightarrow> Inl e))"

text \<open>The body of the outer loop: one child of the requested directory.\<close>

definition directory_step ::
  "os \<Rightarrow> string option \<Rightarrow> dir_entry list \<times> nat \<times> nat \<Rightarrow> path
     \<Rightarrow> exn + dir_entry list \<times> nat \<times> nat" where
  "directory_step os MEDIA_ROOT s item =
     (case s of (directories, image_count, video_count) \<Rightarrow>
        bind (is_dir os item) (\<lambda>d.
          if d then
            bind (count_subdirectory os item) (\<lambda>c.
              bind (relative_to_media_root MEDIA_ROOT item) (\<lambda>rel.
                Inr (directories @
                       [\<lparr>d_name = name_of item, d_path = rel,
                         d_image_count = fst c, d_video_count = snd c\<rparr>],
                     image_count, video_count)))
          else
            bind (is_file os item) (\<lambda>f.
              if \<not> f then Inr s
              else bind (is_media_file (name_of item) None) (\<lambda>m.
                if \<not> m then Inr s
                else bind (get_media_type (name_of item)) (\<lambda>t.
                  if t = Some ''images'' then Inr (directories, image_count + 1, video_count)
                  else Inr (directories, image_count, video_count + 1))))))"

definition list_directories :: "os \<Rightarrow> string option \<Rightarrow> string option \<Rightarrow> exn + directory_listing" where
  "list_directories os MEDIA_ROOT path_arg =
     http_errors (
       bind (get_media_root MEDIA_ROOT) (\<lambda>media_root.
         let target_dir = target_of media_root path_arg in
         bind (exists os target_dir) (\<lambda>e.
           if \<not> e then Inl (HTTPException 404 ''Directory not found'')
           else bind (is_dir os target_dir) (\<lambda>d.
             if \<not> d then Inl (HTTPException 400 ''Path is not a directory'')
             else bind (iterdir os target_dir) (\<lambda>items.
               bind (finish (for_each (directory_step os MEDIA_ROOT) (sorted_paths items) ([], 0, 0)))
                 (\<lambda>s. case s of (directories, image_count, video_count) \<Rightarrow>
                    Inr \<lparr>dl_path = or_empty path_arg, dl_directories = directories,
                         dl_image_count = image_count, dl_video_count = video_count\<rparr>))))))"

subsection \<open>\<^verbatim>\<open>GET /api/media\<close>\<close>

definition media_step ::
  "os \<Rightarrow> string option \<Rightarrow> string option \<Rightarrow> media_entry list \<times> media_entry list \<Rightarrow> path
     \<Rightarrow> exn + media_entry list \<times> media_entry list" where
  "media_step os MEDIA_ROOT media_type s item =
     (case s of (images, videos) \<Rightarrow>
        bind (is_file os item) (\<lambda>f.
          if \<not> f then Inr s
          else bind (is_media_file (name_of item) media_type) (\<lambda>m.
            if \<not> m then Inr s
            else bind (get_media_type (name_of item)) (\<lambda>media_t.
              if media_t = Some ''images'' then
                bind (relative_to_media_root MEDIA_ROOT item) (\<lambda>rel.
                  Inr (images @ [\<lparr>m_name = name_of item, m_path = rel\<rparr>], videos))
              else if media_t = Some ''videos'' then
                bind (relative_to_media_root MEDIA_ROOT item) (\<lambda>rel.
                  Inr (images, videos @ [\<lparr>m_name = name_of item, m_path = rel\<rparr>]))
              else Inr s))))"

definition list_media ::
  "os \<Rightarrow> string option \<Rightarrow> string option \<Rightarrow> string option \<Rightarrow> exn + media_listing" where
  "list_media os MEDIA_ROOT path_arg media_type =
     http_errors (
       bind (get_media_root MEDIA_ROOT) (\<lambda>media_root.
         let target_dir = target_of media_root path_arg in
         bind (exists os target_dir) (\<lambda>e.
           if \<not> e then Inl (HTTPException 404 ''Directory not found'')
           else bind (is_dir os target_dir) (\<lambda>d.
             if \<not> d then Inl (HTTPException 400 ''Path is not a directory'')
             else bind (iterdir os target_dir) (\<lambda>items.
               bind (finish (for_each (media_step os MEDIA_ROOT media_type) (sorted_paths items) ([], [])))
                 (\<lambda>s. case s of (images, videos) \<Rightarrow>
                    Inr \<lparr>ml_path = or_empty path_arg, ml_images = images, ml_videos = videos\<rparr>))))))"

subsection \<open>\<^verbatim>\<open>GET /slideshow/{media_type}\<close>\<close>

definition slideshow_step ::
  "os \<Rightarrow> string option \<Rightarrow> string \<Rightarrow> media_entry list \<Rightarrow> path \<Rightarrow> exn + media_entry list" where
  "slideshow_step os MEDIA_ROOT media_type media_files item =
     bind (is_file os item) (\<lambda>f.
       if \<not> f then Inr media_files
       else bind (is_media_file (name_of item) (Some media_type)) (\<lambda>m.
         if \<not> m then Inr media_files
         else bind (relative_to_media_root MEDIA_ROOT item) (\<lambda>rel.
           Inr (media_files @ [\<lparr>m_name = name_of item, m_path = rel\<rparr>]))))"

text \<open>
  The whole function sits in \<^verbatim>\<open>try ... except Exception\<close>: nothing is raised, an
  exception becomes the \<^verbatim>\<open>Error\<close> block.
\<close>

definition generate_slideshow_html :: "os \<Rightarrow> string option \<Rightarrow> string \<Rightarrow> string \<Rightarrow> bool \<Rightarrow> html" where
  "generate_slideshow_html os MEDIA_ROOT media_type path_arg randomize =
     (case
        bind (get_media_root MEDIA_ROOT) (\<lambda>media_root.
          let target_dir = (if path_arg \<noteq> [] then truediv media_root path_arg else media_root) in
          bind (exists os target_dir) (\<lambda>e.
            if \<not> e then Inr Directory_not_found
            else bind (iterdir os target_dir) (\<lambda>items.
              bind (finish (for_each (slideshow_step os MEDIA_ROOT media_type) (sorted_paths items) []))
                (\<lambda>media_files.
                   Inr (Slideshow_document media_type
                          (if randomize then shuffle os media_files else media_files))))))
      of Inl e \<Rightarrow> Error_block e | Inr page \<Rightarrow> page)"

definition slideshow_page ::
  "os \<Rightarrow> string option \<Rightarrow> string \<Rightarrow> string option \<Rightarrow> bool \<Rightarrow> exn + html_response" where
  "slideshow_page os MEDIA_ROOT media_type path_arg randomize =
     (if media_type \<notin> set [''images'', ''videos'']
      then Inl (HTTPException 404 ''Invalid media type'')
      else Inr \<lparr>hr_status_code = 200,
               hr_content = generate_slideshow_html os MEDIA_ROOT media_type (or_empty path_arg) randomize\<rparr>)"

subsection \<open>\<^verbatim>\<open>GET /media/{file_path}\<close>\<close>

definition content_types :: "(string \<times> string) list" where
  "content_types =
     [(''jpg'', ''image/jpeg''), (''jpeg'', ''image/jpeg''), (''png'', ''image/png''),
      (''gif'', ''image/gif''), (''webp'', ''image/webp''), (''mp4'', ''video/mp4''),
      (''mov'', ''video/quicktime''), (''avi'', ''video/x-msvideo''),
      (''mkv'', ''video/x-matroska''), (''webm'', ''video/webm'')]"

definition serve_media :: "os \<Rightarrow> string option \<Rightarrow> string \<Rightarrow> exn + file_response" where
  "serve_media os MEDIA_ROOT file_path =
     http_errors (
       bind (get_media_root MEDIA_ROOT) (\<lambda>media_root.
         bind (resolve os (truediv media_root file_path)) (\<lambda>file_path_obj.
           bind (resolve os media_root) (\<lambda>media_root_resolved.
             if \<not> prefix (str_path media_root_resolved) (str_path file_path_obj)
             then Inl (HTTPException 403 ''Access denied'')
             else bind (exists os file_path_obj) (\<lambda>e.
               if \<not> e then Inl (HTTPException 404 ''File not found'')
               else bind (is_file os file_path_obj) (\<lambda>f.
                 if \<not> f then Inl (HTTPException 400 ''Not a file'')
                 else bind (index_last (split (CHR ''.'') (lower file_path))) (\<lambda>ext.
                   Inr \<lparr>fr_path = file_path_obj,
                        fr_media_type =
                          (case map_of content_types ext of
                             Some t \<Rightarrow> t
                           | None \<Rightarrow> ''application/octet-stream'')\<rparr>)))))))"


subsection \<open>Vocabulary of the specification\<close>




text \<open>
  \<open>within p r\<close>: the path \<open>p\<close> is \<open>r\<close> or a descendant of it, compared component by
  component. Applied to resolved paths this is containment in the file system; applied to
  paths as written it is what \<^verbatim>\<open>relative_to\<close> tests.
\<close>

definition within :: "path \<Rightarrow> path \<Rightarrow> bool" where
  "within p r \<longleftrightarrow> root p = root r \<and> prefix (parts r) (parts p)"



definition is_regular :: "os \<Rightarrow> path \<Rightarrow> bool" where
  "is_regular os p \<longleftrightarrow> stat os (str_path p) = Inr (Some Regular)"

definition is_directory :: "os \<Rightarrow> path \<Rightarrow> bool" where
  "is_directory os p \<longleftrightarrow> stat os (str_path p) = Inr (Some Directory)"








text \<open>The media sequence a slideshow document carries.\<close>

fun embedded_media :: "html \<Rightarrow> media_entry list" where
  "embedded_media Directory_not_found = []"
| "embedded_media (Error_block e) = []"
| "embedded_media (Slideshow_document media_type media_files) = media_files"

subsection \<open>Concrete file systems\<close>

text \<open>
  For the worked examples: a file system without symbolic links, given as a tree, with
  \<^verbatim>\<open>/\<close> as working directory. \<open>Locked m\<close> is a directory whose listing is refused with
  \<^verbatim>\<open>PermissionError\<close>, \<open>Faulty m\<close> one whose listing fails with another \<^verbatim>\<open>OSError\<close>,
  \<open>Device\<close> an entry that is neither a regular file nor a directory. \<open>walk\<close> resolves a
  component list the way the kernel does, \<^verbatim>\<open>..\<close> leading to the parent directory;
  \<open>normalize\<close> is \<^verbatim>\<open>realpath\<close> in the absence of links.
\<close>

datatype node = File | Dir "(string \<times> node) list" | Locked string | Faulty string | Device

fun walk :: "node list \<Rightarrow> node \<Rightarrow> string list \<Rightarrow> node option" where
  "walk up n [] = Some n"
| "walk up (Dir es) (c # cs) =
     (if c = ''..'' then (case up of [] \<Rightarrow> walk [] (Dir es) cs | p # ps \<Rightarrow> walk ps p cs)
      else (case map_of es c of None \<Rightarrow> None | Some m \<Rightarrow> walk (Dir es # up) m cs))"
| "walk up n (c # cs) = None"

fun normalize :: "string list \<Rightarrow> string list \<Rightarrow> string list" where
  "normalize acc [] = rev acc"
| "normalize acc (c # cs) =
     (if c = ''..'' then normalize (case acc of [] \<Rightarrow> [] | a # as \<Rightarrow> as) cs
      else normalize (c # acc) cs)"

fun kind_of :: "node \<Rightarrow> kind" where
  "kind_of File = Regular"
| "kind_of (Dir es) = Directory"
| "kind_of (Locked m) = Directory"
| "kind_of (Faulty m) = Directory"
| "kind_of Device = Other"

fun names_of :: "node option \<Rightarrow> exn + string list" where
  "names_of (Some (Dir es)) = Inr (map fst es)"
| "names_of (Some (Locked m)) = Inl (PermissionError m)"
| "names_of (Some (Faulty m)) = Inl (OSError m)"
| "names_of (Some n) = Inl (OSError ''Not a directory'')"
| "names_of None = Inl (OSError ''No such file or directory'')"

definition posix :: "node \<Rightarrow> os" where
  "posix tree =
     \<lparr>stat = (\<lambda>s. Inr (map_option kind_of (walk [] tree (parts (Path s))))),
      listdir = (\<lambda>s. names_of (walk [] tree (parts (Path s)))),
      realpath = (\<lambda>s. Inr (''/'' @ join (CHR ''/'') (normalize [] (parts (Path s))))),
      shuffle = rev\<rparr>"

definition example_tree :: node where
  "example_tree =
     Dir [(''media'',
            Dir [(''b.png'', File),
                 (''A'', Dir [(''1.jpg'', File), (''c.mp4'', File), (''2.jpg'', File)])]),
          (''secret'', Dir [(''x.jpg'', File)]),
          (''media-evil'', Dir [(''secret.jpg'', File)]),
          (''album'',
            Dir [(''b.mp4'', File), (''a.png'', File), (''clip.webm'', File), (''sub'', Dir []),
                 (''notes.txt'', File), (''private'', Locked ''Permission denied''),
                 (''pipe'', Device)]),
          (''broken'', Dir [(''bad'', Faulty ''Input/output error'')]),
          (''pair'', Dir [(''b.mp4'', File), (''a.png'', File)])]"



section \<open>Properties\<close>

subsection \<open>Strings and the classifier\<close>

















subsection \<open>Paths\<close>







subsection \<open>File system queries\<close>





subsection \<open>The inner loop\<close>





subsection \<open>The outer loop\<close>





subsection \<open>Evaluating the examples\<close>

lemmas eval_defs = list_directories_def list_media_def serve_media_def posix_def example_tree_def
  http_errors_def bind_def get_media_root_def target_of_def or_empty_def exists_def is_dir_def is_file_def
  iterdir_def resolve_def Path_def splitroot_def truediv_def str_path_def name_of_def relative_to_def
  make_child_relpath_def cparts_def sorted_paths_def finish_def directory_step_def count_subdirectory_def
  count_step_def media_step_def relative_to_media_root_def is_media_file_def get_media_type_def
  index_last_def lower_def lower_char_def IMG_EXTS_def VID_EXTS_def content_types_def
  is_directory_def is_regular_def




subsection \<open>The directory listing\<close>










subsection \<open>The media listing\<close>













subsection \<open>Serving a file\<close>





subsection \<open>The slideshow\<close>

lemma slideshow_target:
  "(if or_empty path_arg \<noteq> [] then truediv media_root (or_empty path_arg) else media_root)
     = target_of media_root path_arg"
  by (cases path_arg) (simp_all add: or_empty_def target_of_def)

text \<open>
  Claim C9. For a media type other than \<^verbatim>\<open>images\<close> and \<^verbatim>\<open>videos\<close> the slideshow route
  fails with 404. For these two media types it never fails: it answers with a page and
  status 200, whatever the machine does. When nothing exists at the requested path, the
  page is the \<^verbatim>\<open>Directory not found\<close> block, which carries no media.
\<close>

theorem slideshow_missing_directory:
  "(media_type \<in> {''images'', ''videos''}
      \<and> stat os (str_path (target_of (Path r) path_arg)) = Inr None \<longrightarrow>
    slideshow_page os (Some r) media_type path_arg randomize =
      Inr \<lparr>hr_status_code = 200, hr_content = Directory_not_found\<rparr>
    \<and> embedded_media Directory_not_found = [])
   \<and> (media_type \<in> {''images'', ''videos''} \<longrightarrow>
        (\<exists>page. slideshow_page os R media_type path_arg randomize =
           Inr \<lparr>hr_status_code = 200, hr_content = page\<rparr>))
   \<and> (media_type \<notin> {''images'', ''videos''} \<longrightarrow>
        slideshow_page os R media_type path_arg randomize =
          Inl (HTTPException 404 ''Invalid media type''))"
proof (intro conjI impI)
  assume a: "media_type \<in> {''images'', ''videos''}
      \<and> stat os (str_path (target_of (Path r) path_arg)) = Inr None"
  then show "slideshow_page os (Some r) media_type path_arg randomize =
      Inr \<lparr>hr_status_code = 200, hr_content = Directory_not_found\<rparr>"
    by (auto simp: slideshow_page_def generate_slideshow_html_def get_media_root_def
        slideshow_target exists_def bind_def Let_def)
next
  show "embedded_media Directory_not_found = []"
    by simp
next
  assume "media_type \<in> {''images'', ''videos''}"
  then show "\<exists>page. slideshow_page os R media_type path_arg randomize =
           Inr \<lparr>hr_status_code = 200, hr_content = page\<rparr>"
    by (auto simp: slideshow_page_def)
next
  assume "media_type \<notin> {''images'', ''videos''}"
  then show "slideshow_page os R media_type path_arg randomize =
          Inl (HTTPException 404 ''Invalid media type'')"
    by (simp add: slideshow_page_def)
qed

text \<open>The directory \<^verbatim>\<open>/album/nope\<close> does not exist; \<^verbatim>\<open>music\<close> is no media type.\<close>

theorem slideshow_missing_directory_witness:
  "''images'' \<in> {''images'', ''videos''}
   \<and> stat (posix example_tree) (str_path (target_of (Path ''/album'') (Some ''nope''))) = Inr None
   \<and> slideshow_page (posix example_tree) (Some ''/album'') ''images'' (Some ''nope'') True =
        Inr \<lparr>hr_status_code = 200, hr_content = Directory_not_found\<rparr>
   \<and> ''music'' \<notin> {''images'', ''videos''}
   \<and> slideshow_page (posix example_tree) (Some ''/album'') ''music'' (Some ''nope'') True =
        Inl (HTTPException 404 ''Invalid media type'')"
proof -
  have h1: "''images'' \<in> {''images'', ''videos''}"
    by simp
  have h2: "stat (posix example_tree) (str_path (target_of (Path ''/album'') (Some ''nope''))) = Inr None"
    by (simp add: eval_defs)
  have h3: "''music'' \<notin> {''images'', ''videos''}"
    by simp
  from slideshow_missing_directory
         [of "''images''" "posix example_tree" "''/album''" "Some ''nope''" True "Some ''/album''"] h1 h2
  have c1: "slideshow_page (posix example_tree) (Some ''/album'') ''images'' (Some ''nope'') True =
        Inr \<lparr>hr_status_code = 200, hr_content = Directory_not_found\<rparr>"
    by iprover
  from slideshow_missing_directory
         [of "''music''" "posix example_tree" "''/album''" "Some ''nope''" True "Some ''/album''"] h3
  have c2: "slideshow_page (posix example_tree) (Some ''/album'') ''music'' (Some ''nope'') True =
        Inl (HTTPException 404 ''Invalid media type'')"
    by iprover
  from h1 h2 h3 c1 c2 show ?thesis
    by iprover
qed

subsection \<open>Independence of the enumeration order\<close>













subsection \<open>Sequences come out sorted\<close>












subsection \<open>The path field of an entry\<close>













lemmas eval_slideshow = slideshow_page_def generate_slideshow_html_def slideshow_step_def




subsection \<open>Containment\<close>

text \<open>
  Claim C1 at the path \<^verbatim>\<open>../media-evil/secret.jpg\<close> under the root \<^verbatim>\<open>/media\<close>. The resolved
  path is \<^verbatim>\<open>/media-evil/secret.jpg\<close>, which is neither the root nor a descendant of it; its
  string starts with the string \<^verbatim>\<open>/media\<close>, the test of the handler passes, and the file is
  served. A path outside the root whose string does not start like the root's, such as
  \<^verbatim>\<open>../secret/x.jpg\<close>, is refused with 403.
\<close>

theorem serve_media_prefix_collision:
  "resolve (posix example_tree) (truediv (Path ''/media'') ''../media-evil/secret.jpg'')
     = Inr (Path ''/media-evil/secret.jpg'')
   \<and> resolve (posix example_tree) (Path ''/media'') = Inr (Path ''/media'')
   \<and> \<not> within (Path ''/media-evil/secret.jpg'') (Path ''/media'')
   \<and> serve_media (posix example_tree) (Some ''/media'') ''../media-evil/secret.jpg'' =
        Inr \<lparr>fr_path = Path ''/media-evil/secret.jpg'', fr_media_type = ''image/jpeg''\<rparr>
   \<and> serve_media (posix example_tree) (Some ''/media'') ''../secret/x.jpg'' =
        Inl (HTTPException 403 ''Access denied'')"
  by (simp add: eval_defs within_def)

text \<open>
  Claim C2 at the path \<^verbatim>\<open>../secret\<close> under the root \<^verbatim>\<open>/media\<close>. The path resolves to
  \<^verbatim>\<open>/secret\<close>, outside the root. The directory listing, the media listing and the
  slideshow make no containment test: each answers with what \<^verbatim>\<open>/secret\<close> holds. The file
  route refuses the file of that directory with 403.
\<close>

theorem listing_endpoints_escape_root:
  "resolve (posix example_tree) (target_of (Path ''/media'') (Some ''../secret'')) = Inr (Path ''/secret'')
   \<and> resolve (posix example_tree) (Path ''/media'') = Inr (Path ''/media'')
   \<and> \<not> within (Path ''/secret'') (Path ''/media'')
   \<and> list_directories (posix example_tree) (Some ''/media'') (Some ''../secret'') =
        Inr \<lparr>dl_path = ''../secret'', dl_directories = [], dl_image_count = 1, dl_video_count = 0\<rparr>
   \<and> list_media (posix example_tree) (Some ''/media'') (Some ''../secret'') None =
        Inr \<lparr>ml_path = ''../secret'',
             ml_images = [\<lparr>m_name = ''x.jpg'', m_path = ''../secret/x.jpg''\<rparr>],
             ml_videos = []\<rparr>
   \<and> slideshow_page (posix example_tree) (Some ''/media'') ''images'' (Some ''../secret'') False =
        Inr \<lparr>hr_status_code = 200,
             hr_content = Slideshow_document ''images''
               [\<lparr>m_name = ''x.jpg'', m_path = ''../secret/x.jpg''\<rparr>]\<rparr>
   \<and> serve_media (posix example_tree) (Some ''/media'') ''../secret/x.jpg'' =
        Inl (HTTPException 403 ''Access denied'')"
  by (simp add: eval_defs eval_slideshow within_def)

end
